theory Spec2Isabelle
  imports Main
begin

section \<open>Data model\<close>

text \<open>
  The resolvers of \<^verbatim>\<open>src/resolvers/Mutation.js\<close> and of the query file work on an
  ambient context \<^verbatim>\<open>ctx\<close>: the request (the caller's id and cached user record), the
  data store \<^verbatim>\<open>ctx.db\<close> and the response (the session cookie). The store is an external
  service; it is modelled as lists of rows, in the order in which a filtered query returns
  them. Identifiers are the store's opaque strings. The numbers of the program are whole:
  prices and quantities are the store's \<^verbatim>\<open>Int\<close> fields, timestamps are whole milliseconds;
  they are modelled as integers. The total of \<^verbatim>\<open>createOrder\<close> multiplies and adds them
  as JavaScript numbers, which is modelled with the rounding of doubles (section
  "JavaScript numbers"); a quantity plus one and the clock minus an hour stay far below
  \<open>2^53\<close>, where that arithmetic is exact.
\<close>

type_synonym ident = string

record user =
  user_id :: ident
  user_name :: string
  user_email :: string
  user_password :: string
  user_resetToken :: "string option"
  user_resetTokenExpiry :: "int option"
  user_permissions :: "string list"

record item =
  item_id :: ident
  item_title :: string
  item_description :: string
  item_image :: string
  item_largeImage :: string
  item_price :: int
  item_user :: ident

record cart_item =
  cart_id :: ident
  cart_quantity :: int
  cart_item :: ident
  cart_user :: ident

record order_item =
  oi_title :: string
  oi_description :: string
  oi_image :: string
  oi_largeImage :: string
  oi_price :: int
  oi_quantity :: int
  oi_user :: ident

record order =
  order_id :: ident
  order_total :: int
  order_charge :: string
  order_items :: "order_item list"
  order_user :: ident

record ctx =
  request_userId :: "ident option"
  request_user :: "user option"
  db_users :: "user list"
  db_items :: "item list"
  db_cartItems :: "cart_item list"
  db_orders :: "order list"
  response_cookie :: "ident option"

text \<open>
  \<^verbatim>\<open>throw new Error(msg)\<close> is \<open>Error msg\<close>; reading a property of \<^verbatim>\<open>null\<close> or
  \<^verbatim>\<open>undefined\<close> is \<open>TypeError\<close>; a request the store rejects is \<open>StoreError\<close>; a
  charge the payment gateway rejects is \<open>GatewayError\<close>; \<open>AuthorizationError\<close> is what
  the permission guard raises.
\<close>

datatype error =
  Error string
| TypeError
| StoreError
| GatewayError
| AuthorizationError

text \<open>
  \<^verbatim>\<open>!ctx.request.userId\<close> holds of an absent id and of the empty string; \<open>caller\<close>
  gives the id on the other branch.
\<close>

definition caller :: "ctx \<Rightarrow> ident option" where
  "caller c =
     (case request_userId c of
        None \<Rightarrow> None
      | Some i \<Rightarrow> if i = [] then None else Some i)"

text \<open>
  \<^verbatim>\<open>String.prototype.toLowerCase\<close> on the ASCII letters; every other byte is kept.
  JavaScript also lowers the letters beyond ASCII: those are not modelled, and the only
  string that a theorem below lowers is the ASCII literal \<^verbatim>\<open>Email@Test.com\<close>.
\<close>

definition toLowerCase_char :: "char \<Rightarrow> char" where
  "toLowerCase_char ch =
     (let n = (of_char ch :: nat)
      in if 65 \<le> n \<and> n \<le> 90 then char_of (n + 32) else ch)"

definition toLowerCase :: "string \<Rightarrow> string" where
  "toLowerCase s = map toLowerCase_char s"

section \<open>JavaScript numbers\<close>


function ulp :: "int \<Rightarrow> int" where
  "ulp n = (if n < 9007199254740992 then 1 else 2 * ulp (n div 2))"
  by pat_completeness auto
termination
  by (relation "measure nat") auto

declare ulp.simps [simp del]

definition round_double :: "int \<Rightarrow> int" where
  "round_double x =
     (let n = \<bar>x\<bar>;
          u = ulp n;
          q = n div u;
          r = n mod u;
          m = (if 2 * r < u then q
               else if u < 2 * r then q + 1
               else if even q then q else q + 1)
      in sgn x * (m * u))"

definition js_mul :: "int \<Rightarrow> int \<Rightarrow> int" where
  "js_mul a b = round_double (a * b)"

definition js_add :: "int \<Rightarrow> int \<Rightarrow> int" where
  "js_add a b = round_double (a + b)"

section \<open>The data store\<close>

text \<open>
  The operations of \<^verbatim>\<open>ctx.db.query\<close> and \<^verbatim>\<open>ctx.db.mutation\<close> that the resolvers call.
  A query by a unique key (\<^verbatim>\<open>id\<close>, \<^verbatim>\<open>email\<close>) returns the row or \<^verbatim>\<open>null\<close>; an update
  by a unique key changes that row and is rejected when there is none; a filtered query
  returns the matching rows in store order. The store chooses the identifier of a new
  row: it is the parameter \<open>new_id\<close> of the creating operations.
\<close>

fun update_first :: "('a \<Rightarrow> bool) \<Rightarrow> ('a \<Rightarrow> 'a) \<Rightarrow> 'a list \<Rightarrow> 'a list" where
  "update_first P f [] = []"
| "update_first P f (x # xs) = (if P x then f x # xs else x # update_first P f xs)"

definition query_user_by_id :: "ctx \<Rightarrow> ident \<Rightarrow> user option" where
  "query_user_by_id c i = find (\<lambda>u. user_id u = i) (db_users c)"

definition query_user_by_email :: "ctx \<Rightarrow> string \<Rightarrow> user option" where
  "query_user_by_email c e = find (\<lambda>u. user_email u = e) (db_users c)"

definition query_order :: "ctx \<Rightarrow> ident \<Rightarrow> order option" where
  "query_order c i = find (\<lambda>ord. order_id ord = i) (db_orders c)"

definition query_item :: "ctx \<Rightarrow> ident \<Rightarrow> item option" where
  "query_item c i = find (\<lambda>it. item_id it = i) (db_items c)"

text \<open>
  \<^verbatim>\<open>query.users({ where: { resetToken, resetTokenExpiry_gte } })\<close>: a row whose token or
  expiry is \<^verbatim>\<open>null\<close> does not match.
\<close>

definition expiry_gte :: "int option \<Rightarrow> int \<Rightarrow> bool" where
  "expiry_gte e bound = (case e of None \<Rightarrow> False | Some t \<Rightarrow> bound \<le> t)"

definition query_users_where_resetToken :: "ctx \<Rightarrow> string \<Rightarrow> int \<Rightarrow> user list" where
  "query_users_where_resetToken c tok bound =
     filter (\<lambda>u. user_resetToken u = Some tok \<and> expiry_gte (user_resetTokenExpiry u) bound)
       (db_users c)"


text \<open>
  \<^verbatim>\<open>mutation.createUser\<close>: the email is a unique key of the store, so a second row with
  the same email is rejected.
\<close>

definition mutation_createUser :: "user \<Rightarrow> ctx \<Rightarrow> (error + user) \<times> ctx" where
  "mutation_createUser u c =
     (if query_user_by_email c (user_email u) = None
      then (Inr u, c\<lparr>db_users := db_users c @ [u]\<rparr>)
      else (Inl StoreError, c))"

definition mutation_updateUser_by_email ::
  "string \<Rightarrow> (user \<Rightarrow> user) \<Rightarrow> ctx \<Rightarrow> (error + user) \<times> ctx" where
  "mutation_updateUser_by_email e f c =
     (case query_user_by_email c e of
        None \<Rightarrow> (Inl StoreError, c)
      | Some u \<Rightarrow>
          (Inr (f u), c\<lparr>db_users := update_first (\<lambda>u. user_email u = e) f (db_users c)\<rparr>))"

definition mutation_updateUser_by_id ::
  "ident \<Rightarrow> (user \<Rightarrow> user) \<Rightarrow> ctx \<Rightarrow> (error + user) \<times> ctx" where
  "mutation_updateUser_by_id i f c =
     (case query_user_by_id c i of
        None \<Rightarrow> (Inl StoreError, c)
      | Some u \<Rightarrow>
          (Inr (f u), c\<lparr>db_users := update_first (\<lambda>u. user_id u = i) f (db_users c)\<rparr>))"

definition mutation_updateItem ::
  "ident \<Rightarrow> (item \<Rightarrow> item) \<Rightarrow> ctx \<Rightarrow> (error + item) \<times> ctx" where
  "mutation_updateItem i f c =
     (case query_item c i of
        None \<Rightarrow> (Inl StoreError, c)
      | Some it \<Rightarrow>
          (Inr (f it), c\<lparr>db_items := update_first (\<lambda>it. item_id it = i) f (db_items c)\<rparr>))"




definition mutation_createOrder :: "order \<Rightarrow> ctx \<Rightarrow> order \<times> ctx" where
  "mutation_createOrder ord c = (ord, c\<lparr>db_orders := db_orders c @ [ord]\<rparr>)"

text \<open>\<^verbatim>\<open>mutation.deleteManyCartItems({ where: { id_in } })\<close>.\<close>

definition mutation_deleteManyCartItems :: "ident list \<Rightarrow> ctx \<Rightarrow> ctx" where
  "mutation_deleteManyCartItems ids c =
     c\<lparr>db_cartItems := filter (\<lambda>ci. cart_id ci \<notin> set ids) (db_cartItems c)\<rparr>"

text \<open>
  What \<^verbatim>\<open>query.user\<close> returns for the selection \<^verbatim>\<open>cart { id quantity item { ... } }\<close>:
  the caller's cart lines, each with its item, which is \<^verbatim>\<open>null\<close> when the store no
  longer holds it.
\<close>

record cart_line =
  line_id :: ident
  line_quantity :: int
  line_item :: "item option"

definition user_cart :: "ctx \<Rightarrow> ident \<Rightarrow> cart_line list" where
  "user_cart c userId =
     map (\<lambda>ci. \<lparr>line_id = cart_id ci, line_quantity = cart_quantity ci,
                line_item = query_item c (cart_item ci)\<rparr>)
       (filter (\<lambda>ci. cart_user ci = userId) (db_cartItems c))"

section \<open>External services\<close>

text \<open>
  The password hash (\<^verbatim>\<open>bcrypt.hash\<close>, \<^verbatim>\<open>bcrypt.compare\<close>), the payment gateway
  (\<^verbatim>\<open>stripe.charges.create\<close>) and the clock (\<^verbatim>\<open>Date.now()\<close>) are parameters of the
  resolvers that use them. A charge is the gateway's answer; \<open>None\<close> is a rejected
  promise (the gateway declined or could not be reached). The signed session token is
  modelled by its payload, the user's id.
\<close>

record charge =
  charge_id :: string
  charge_amount :: int

type_synonym gateway = "int \<Rightarrow> string \<Rightarrow> charge option"

text \<open>
  Modelled from the spec: \<^verbatim>\<open>hasPermission\<close> of \<^verbatim>\<open>src/utils\<close> is not among the sources.
  The spec's PermissionGuard "fails with AuthorizationError unless the user's permission
  set intersects requiredAny".
\<close>

definition hasPermission :: "user \<Rightarrow> string list \<Rightarrow> error + unit" where
  "hasPermission u permissionsNeeded =
     (if list_ex (\<lambda>p. p \<in> set permissionsNeeded) (user_permissions u)
      then Inr ()
      else Inl AuthorizationError)"

section \<open>Query resolvers\<close>

text \<open>
  \<^verbatim>\<open>Query.users\<close>: the caller must be logged in and pass the guard on the cached user
  record; the list of all users is then read from the store.
\<close>

definition users_query :: "ctx \<Rightarrow> error + user list" where
  "users_query c =
     (case caller c of
        None \<Rightarrow> Inl (Error ''You must be logged in!'')
      | Some userId \<Rightarrow>
          (case request_user c of
             None \<Rightarrow> Inl TypeError
           | Some u \<Rightarrow>
               (case hasPermission u [''ADMIN'', ''PERISSIONUPDATE''] of
                  Inl e \<Rightarrow> Inl e
                | Inr _ \<Rightarrow> Inr (db_users c))))"

text \<open>
  \<^verbatim>\<open>Query.order\<close>: the caller must be logged in; the order is read from the store; it is
  returned unless \<^verbatim>\<open>!ownsOrder || !hasPermissionToSeeOrder\<close>.
\<close>

definition order_query :: "ident \<Rightarrow> ctx \<Rightarrow> error + order" where
  "order_query args_id c =
     (case caller c of
        None \<Rightarrow> Inl (Error ''You must be logged in!'')
      | Some userId \<Rightarrow>
          (case query_order c args_id of
             None \<Rightarrow> Inl TypeError
           | Some ord \<Rightarrow>
               (case request_user c of
                  None \<Rightarrow> Inl TypeError
                | Some u \<Rightarrow>
                    let ownsOrder = (order_user ord = userId);
                        hasPermissionToSeeOrder = (''ADMIN'' \<in> set (user_permissions u))
                    in if \<not> ownsOrder \<or> \<not> hasPermissionToSeeOrder
                       then Inl (Error ''You cant see this! :)'')
                       else Inr ord)))"

section \<open>Mutation resolvers\<close>

text \<open>
  \<^verbatim>\<open>updateItem\<close>: the arguments without the id are the updates; the store applies the
  fields that are present to the item with that id.
\<close>

record item_updates =
  upd_title :: "string option"
  upd_description :: "string option"
  upd_price :: "int option"

definition apply_updates :: "item_updates \<Rightarrow> item \<Rightarrow> item" where
  "apply_updates updates it =
     it\<lparr>item_title := (case upd_title updates of None \<Rightarrow> item_title it | Some t \<Rightarrow> t),
        item_description :=
          (case upd_description updates of None \<Rightarrow> item_description it | Some d \<Rightarrow> d),
        item_price := (case upd_price updates of None \<Rightarrow> item_price it | Some p \<Rightarrow> p)\<rparr>"

definition updateItem :: "ident \<Rightarrow> item_updates \<Rightarrow> ctx \<Rightarrow> (error + item) \<times> ctx" where
  "updateItem args_id updates c = mutation_updateItem args_id (apply_updates updates) c"

text \<open>
  \<^verbatim>\<open>signup\<close>: the email is lowercased, the password hashed, the user created with the
  permissions \<^verbatim>\<open>["USER"]\<close>, and the session cookie set.
\<close>

definition signup ::
  "(string \<Rightarrow> string) \<Rightarrow> ident \<Rightarrow> string \<Rightarrow> string \<Rightarrow> string \<Rightarrow> ctx \<Rightarrow> (error + user) \<times> ctx"
where
  "signup bcrypt_hash new_id args_email args_password args_name c =
     (let email = toLowerCase args_email;
          password = bcrypt_hash args_password
      in case mutation_createUser
                \<lparr>user_id = new_id, user_name = args_name, user_email = email,
                 user_password = password, user_resetToken = None,
                 user_resetTokenExpiry = None, user_permissions = [''USER'']\<rparr> c of
           (Inl e, c') \<Rightarrow> (Inl e, c')
         | (Inr u, c') \<Rightarrow> (Inr u, c'\<lparr>response_cookie := Some (user_id u)\<rparr>))"

text \<open>\<^verbatim>\<open>signin\<close>: lookup by the email as given, then the hash comparison.\<close>

definition signin ::
  "(string \<Rightarrow> string \<Rightarrow> bool) \<Rightarrow> string \<Rightarrow> string \<Rightarrow> ctx \<Rightarrow> (error + user) \<times> ctx"
where
  "signin bcrypt_compare email password c =
     (case query_user_by_email c email of
        None \<Rightarrow> (Inl (Error (''No such user found for email '' @ email)), c)
      | Some u \<Rightarrow>
          if \<not> bcrypt_compare password (user_password u)
          then (Inl (Error ''Invalid password''), c)
          else (Inr u, c\<lparr>response_cookie := Some (user_id u)\<rparr>))"

text \<open>
  \<^verbatim>\<open>resetPassword\<close>: the passwords must match; the user is the first row of the store
  whose token is the one presented and whose expiry is at least
  \<^verbatim>\<open>Date.now() - 3600000\<close>; the new hash is saved and the token and expiry are set to
  \<^verbatim>\<open>null\<close>, on the row with that user's email.
\<close>

definition resetPassword ::
  "(string \<Rightarrow> string) \<Rightarrow> int \<Rightarrow> string \<Rightarrow> string \<Rightarrow> string \<Rightarrow> ctx \<Rightarrow> (error + user) \<times> ctx"
where
  "resetPassword bcrypt_hash now args_resetToken args_password args_confirmPassword c =
     (if args_password \<noteq> args_confirmPassword
      then (Inl (Error ''Your Password don't Match''), c)
      else case query_users_where_resetToken c args_resetToken (now - 3600000) of
        [] \<Rightarrow> (Inl (Error ''This token is wither invalid or expired!''), c)
      | u # _ \<Rightarrow>
          let password = bcrypt_hash args_password
          in (case mutation_updateUser_by_email (user_email u)
                     (\<lambda>r. r\<lparr>user_password := password, user_resetToken := None,
                             user_resetTokenExpiry := None\<rparr>) c of
                (Inl e, c') \<Rightarrow> (Inl e, c')
              | (Inr updatedUser, c') \<Rightarrow>
                  (Inr updatedUser, c'\<lparr>response_cookie := Some (user_id updatedUser)\<rparr>)))"

text \<open>
  \<^verbatim>\<open>updatePermissions\<close>: the caller must be logged in; the caller's record is read from
  the store and passed to the guard; the target's permissions are then overwritten.
\<close>

definition updatePermissions :: "ident \<Rightarrow> string list \<Rightarrow> ctx \<Rightarrow> (error + user) \<times> ctx" where
  "updatePermissions args_userId args_permissions c =
     (case caller c of
        None \<Rightarrow> (Inl (Error ''You must be logged in!''), c)
      | Some userId \<Rightarrow>
          (case query_user_by_id c userId of
             None \<Rightarrow> (Inl TypeError, c)
           | Some u \<Rightarrow>
               (case hasPermission u [''ADMIN'', ''PERMISSIONUPDATE''] of
                  Inl e \<Rightarrow> (Inl e, c)
                | Inr _ \<Rightarrow>
                    mutation_updateUser_by_id args_userId
                      (\<lambda>r. r\<lparr>user_permissions := args_permissions\<rparr>) c)))"


text \<open>
  \<^verbatim>\<open>createOrder\<close>. The total is the \<^verbatim>\<open>reduce\<close> over the cart, from the left, starting at
  0, of \<^verbatim>\<open>tally + cartItem.item.price * cartItem.quantity\<close> in JavaScript numbers; a cart
  line whose item is \<^verbatim>\<open>null\<close> stops it with a TypeError.
\<close>

fun reduce_tally :: "int \<Rightarrow> cart_line list \<Rightarrow> error + int" where
  "reduce_tally tally [] = Inr tally"
| "reduce_tally tally (cartItem # rest) =
     (case line_item cartItem of
        None \<Rightarrow> Inl TypeError
      | Some it \<Rightarrow>
          reduce_tally (js_add tally (js_mul (item_price it) (line_quantity cartItem))) rest)"

text \<open>
  The order item of a cart line: the item's fields without its id, the line's quantity
  and the buyer. The \<^verbatim>\<open>map\<close> runs after the \<^verbatim>\<open>reduce\<close>, which has read
  \<^verbatim>\<open>item.price\<close> of every line, so no line without an item reaches it; the model gives
  that branch the error of the \<^verbatim>\<open>reduce\<close>.
\<close>

fun orderItems_of :: "ident \<Rightarrow> cart_line list \<Rightarrow> error + order_item list" where
  "orderItems_of userId [] = Inr []"
| "orderItems_of userId (cartItem # rest) =
     (case line_item cartItem of
        None \<Rightarrow> Inl TypeError
      | Some it \<Rightarrow>
          (case orderItems_of userId rest of
             Inl e \<Rightarrow> Inl e
           | Inr ois \<Rightarrow>
               Inr (\<lparr>oi_title = item_title it, oi_description = item_description it,
                     oi_image = item_image it, oi_largeImage = item_largeImage it,
                     oi_price = item_price it, oi_quantity = line_quantity cartItem,
                     oi_user = userId\<rparr> # ois)))"

definition createOrder :: "gateway \<Rightarrow> ident \<Rightarrow> string \<Rightarrow> ctx \<Rightarrow> (error + order) \<times> ctx" where
  "createOrder stripe_charges_create new_id args_token c =
     (case caller c of
        None \<Rightarrow> (Inl (Error ''You must be signed in!''), c)
      | Some userId \<Rightarrow>
          (case query_user_by_id c userId of
             None \<Rightarrow> (Inl TypeError, c)
           | Some u \<Rightarrow>
               let cart = user_cart c userId
               in (case reduce_tally 0 cart of
                    Inl e \<Rightarrow> (Inl e, c)
                  | Inr amount \<Rightarrow>
                      (case stripe_charges_create amount args_token of
                         None \<Rightarrow> (Inl GatewayError, c)
                       | Some ch \<Rightarrow>
                           (case orderItems_of userId cart of
                              Inl e \<Rightarrow> (Inl e, c)
                            | Inr orderItems \<Rightarrow>
                                (case mutation_createOrder
                                        \<lparr>order_id = new_id, order_total = charge_amount ch,
                                         order_charge = charge_id ch,
                                         order_items = orderItems, order_user = userId\<rparr> c of
                                   (ord, c1) \<Rightarrow>
                                     let cartItemsId = map line_id cart
                                     in (Inr ord,
                                         mutation_deleteManyCartItems cartItemsId c1)))))))"

section \<open>The totals of the spec\<close>


definition cart_of :: "ctx \<Rightarrow> ident \<Rightarrow> cart_item list" where
  "cart_of c userId = filter (\<lambda>ci. cart_user ci = userId) (db_cartItems c)"



text \<open>An order item is the denormalized copy of a cart item of the store.\<close>

definition snapshot_of :: "ctx \<Rightarrow> order_item \<Rightarrow> cart_item \<Rightarrow> bool" where
  "snapshot_of c oi ci =
     (case query_item c (cart_item ci) of
        None \<Rightarrow> False
      | Some it \<Rightarrow>
          oi = \<lparr>oi_title = item_title it, oi_description = item_description it,
                oi_image = item_image it, oi_largeImage = item_largeImage it,
                oi_price = item_price it, oi_quantity = cart_quantity ci,
                oi_user = cart_user ci\<rparr>)"

section \<open>Example states\<close>

definition ex_hash :: "string \<Rightarrow> string" where
  "ex_hash p = ''hash:'' @ p"

definition ex_compare :: "string \<Rightarrow> string \<Rightarrow> bool" where
  "ex_compare p h = (h = ''hash:'' @ p)"

definition ex_gateway :: gateway where
  "ex_gateway amount tok =
     (if tok = ''tok_visa'' then Some \<lparr>charge_id = ''ch_1'', charge_amount = amount\<rparr>
      else None)"

definition alice :: user where
  "alice = \<lparr>user_id = ''u1'', user_name = ''Alice'', user_email = ''alice@test.com'',
            user_password = ''hash:old'', user_resetToken = Some ''abc'',
            user_resetTokenExpiry = Some 1000, user_permissions = [''USER'']\<rparr>"

definition bob :: user where
  "bob = \<lparr>user_id = ''u2'', user_name = ''Bob'', user_email = ''bob@test.com'',
          user_password = ''hash:bob'', user_resetToken = None,
          user_resetTokenExpiry = None,
          user_permissions = [''USER'', ''PERMISSIONUPDATE'']\<rparr>"

definition carol :: user where
  "carol = \<lparr>user_id = ''u3'', user_name = ''Carol'', user_email = ''carol@test.com'',
            user_password = ''hash:carol'', user_resetToken = None,
            user_resetTokenExpiry = None, user_permissions = [''ADMIN'']\<rparr>"

definition shirt :: item where
  "shirt = \<lparr>item_id = ''1'', item_title = ''Shirt'', item_description = ''A shirt'',
            item_image = ''s.jpg'', item_largeImage = ''S.jpg'', item_price = 500,
            item_user = ''u2''\<rparr>"

definition mug :: item where
  "mug = \<lparr>item_id = ''2'', item_title = ''Mug'', item_description = ''A mug'',
          item_image = ''m.jpg'', item_largeImage = ''M.jpg'', item_price = 300,
          item_user = ''u2''\<rparr>"

definition ex_order :: order where
  "ex_order = \<lparr>order_id = ''o0'', order_total = 300, order_charge = ''ch_0'',
               order_items = [], order_user = ''u1''\<rparr>"

text \<open>
  A store with three users, two items, Alice's cart of two shirts and a mug, one mug in
  Bob's cart, and an earlier order of Alice's. The request is set by \<open>as_user\<close>.
\<close>

definition ex_db :: ctx where
  "ex_db = \<lparr>request_userId = None, request_user = None,
            db_users = [alice, bob, carol],
            db_items = [shirt, mug],
            db_cartItems =
              [\<lparr>cart_id = ''c1'', cart_quantity = 2, cart_item = ''1'', cart_user = ''u1''\<rparr>,
               \<lparr>cart_id = ''c2'', cart_quantity = 1, cart_item = ''2'', cart_user = ''u2''\<rparr>,
               \<lparr>cart_id = ''c3'', cart_quantity = 1, cart_item = ''2'', cart_user = ''u1''\<rparr>],
            db_orders = [ex_order],
            response_cookie = None\<rparr>"


definition ex_order2 :: order where
  "ex_order2 = \<lparr>order_id = ''o2'', order_total = 300, order_charge = ''ch_1'',
      order_items =
        [\<lparr>oi_title = ''Mug'', oi_description = ''A mug'', oi_image = ''m.jpg'',
          oi_largeImage = ''M.jpg'', oi_price = 300, oi_quantity = 1, oi_user = ''u2''\<rparr>],
      order_user = ''u2''\<rparr>"





definition as_user :: "user \<Rightarrow> ctx \<Rightarrow> ctx" where
  "as_user u c = c\<lparr>request_userId := Some (user_id u), request_user := Some u\<rparr>"

section \<open>The single-order query\<close>

text \<open>
  C10. For a logged-in caller with a cached user record and an order that the store holds,
  \<^verbatim>\<open>Query.order\<close> returns the order exactly when the caller owns it and holds
  \<^verbatim>\<open>ADMIN\<close>; an owner without \<^verbatim>\<open>ADMIN\<close> and an \<^verbatim>\<open>ADMIN\<close> who is not the owner both get
  the error and no order.
\<close>

theorem order_query_requires_owner_and_admin:
  assumes "caller c = Some userId"
    and "query_order c args_id = Some ord"
    and "request_user c = Some u"
  shows "order_query args_id c =
           (if order_user ord = userId \<and> ''ADMIN'' \<in> set (user_permissions u)
            then Inr ord
            else Inl (Error ''You cant see this! :)''))"
  using assms by (simp add: order_query_def)

theorem order_query_requires_owner_and_admin_witness:
  "caller (as_user alice ex_db) = Some ''u1''
   \<and> query_order (as_user alice ex_db) ''o0'' = Some ex_order
   \<and> request_user (as_user alice ex_db) = Some alice
   \<and> order_user ex_order = ''u1''
   \<and> ''ADMIN'' \<notin> set (user_permissions alice)
   \<and> order_query ''o0'' (as_user alice ex_db) = Inl (Error ''You cant see this! :)'')"
proof -
  have h1: "caller (as_user alice ex_db) = Some ''u1''"
    by (simp add: caller_def as_user_def alice_def)
  have h2: "query_order (as_user alice ex_db) ''o0'' = Some ex_order"
    by (simp add: query_order_def as_user_def ex_db_def ex_order_def)
  have h3: "request_user (as_user alice ex_db) = Some alice"
    by (simp add: as_user_def)
  have h4: "order_user ex_order = ''u1''" by (simp add: ex_order_def)
  have h5: "''ADMIN'' \<notin> set (user_permissions alice)" by (simp add: alice_def)
  from order_query_requires_owner_and_admin [OF h1 h2 h3] h5
  have "order_query ''o0'' (as_user alice ex_db) = Inl (Error ''You cant see this! :)'')"
    by simp
  with h1 h2 h3 h4 h5 show ?thesis by simp
qed

section \<open>The guard of the users listing\<close>

text \<open>
  C2. The claim is that the \<^verbatim>\<open>users\<close> query is gated like \<^verbatim>\<open>updatePermissions\<close>, so that a
  caller holding \<^verbatim>\<open>PERMISSIONUPDATE\<close> but not \<^verbatim>\<open>ADMIN\<close> may list users. The resolver
  passes \<^verbatim>\<open>["ADMIN", "PERISSIONUPDATE"]\<close> to the guard: Bob, who holds
  \<^verbatim>\<open>PERMISSIONUPDATE\<close>, is refused the listing, while his \<^verbatim>\<open>updatePermissions\<close> call passes
  the guard and changes Alice's permissions.
\<close>

theorem users_query_rejects_PERMISSIONUPDATE:
  "''PERMISSIONUPDATE'' \<in> set (user_permissions bob)
   \<and> users_query (as_user bob ex_db) = Inl AuthorizationError
   \<and> fst (updatePermissions ''u1'' [''USER'', ''ADMIN''] (as_user bob ex_db))
       = Inr (alice\<lparr>user_permissions := [''USER'', ''ADMIN'']\<rparr>)"
  by code_simp

section \<open>Updating an item\<close>

text \<open>
  C3. The claim is that \<^verbatim>\<open>updateItem\<close> fails before any write unless the caller has a
  session and owns the item or holds a permission. The resolver makes no check: with no
  caller at all, the shirt, which is Bob's, gets a new title and price in the store.
\<close>

theorem updateItem_by_anonymous_caller:
  "caller ex_db = None
   \<and> fst (updateItem ''1'' \<lparr>upd_title = Some ''Hacked'', upd_description = None,
                            upd_price = Some 1\<rparr> ex_db)
       = Inr (shirt\<lparr>item_title := ''Hacked'', item_price := 1\<rparr>)
   \<and> db_items (snd (updateItem ''1'' \<lparr>upd_title = Some ''Hacked'', upd_description = None,
                            upd_price = Some 1\<rparr> ex_db))
       = [shirt\<lparr>item_title := ''Hacked'', item_price := 1\<rparr>, mug]"
  by code_simp

section \<open>Redeeming a reset token\<close>

text \<open>
  C1. The claim is that the lookup requires \<open>expiry \<ge> now\<close>, so that an expired token
  fails and leaves the password unchanged. The resolver compares the expiry with
  \<^verbatim>\<open>Date.now() - 3600000\<close>: Alice's token expired at 1000, and half an hour later, at
  1801000, it still selects her and her password is replaced.
\<close>

theorem resetPassword_accepts_expired_token:
  "user_resetTokenExpiry alice = Some 1000 \<and> (1000::int) < 1801000
   \<and> fst (resetPassword ex_hash 1801000 ''abc'' ''new'' ''new'' ex_db)
       = Inr (alice\<lparr>user_password := ''hash:new'', user_resetToken := None,
                    user_resetTokenExpiry := None\<rparr>)
   \<and> db_users (snd (resetPassword ex_hash 1801000 ''abc'' ''new'' ''new'' ex_db))
       = [alice\<lparr>user_password := ''hash:new'', user_resetToken := None,
                 user_resetTokenExpiry := None\<rparr>, bob, carol]"
  by code_simp

section \<open>Checkout\<close>

lemma user_cart_map:
  "user_cart c userId =
     map (\<lambda>ci. \<lparr>line_id = cart_id ci, line_quantity = cart_quantity ci,
                line_item = query_item c (cart_item ci)\<rparr>) (cart_of c userId)"
  by (simp add: user_cart_def cart_of_def)





lemma orderItems_of_snapshots:
  "orderItems_of userId
     (map (\<lambda>ci. \<lparr>line_id = cart_id ci, line_quantity = cart_quantity ci,
                line_item = query_item c (cart_item ci)\<rparr>) cis) = Inr ois
   \<Longrightarrow> list_all (\<lambda>ci. cart_user ci = userId) cis
   \<Longrightarrow> list_all2 (snapshot_of c) ois cis"
proof (induction cis arbitrary: ois)
  case Nil
  then show ?case by simp
next
  case (Cons ci cis)
  then show ?case
    by (cases "query_item c (cart_item ci)")
       (auto simp: snapshot_of_def split: sum.splits)
qed

lemma snapshot_quantities:
  "list_all2 (snapshot_of c) ois cis \<Longrightarrow> map oi_quantity ois = map cart_quantity cis"
  by (induction ois cis rule: list_all2_induct)
     (auto simp: snapshot_of_def split: option.splits)

lemma cart_of_users: "list_all (\<lambda>ci. cart_user ci = userId) (cart_of c userId)"
  by (simp add: cart_of_def list_all_iff)

lemma createOrder_success:
  assumes "createOrder stripe new_id tok c = (Inr ord, c')"
  obtains userId u amount ch orderItems where
    "caller c = Some userId"
    "query_user_by_id c userId = Some u"
    "reduce_tally 0 (user_cart c userId) = Inr amount"
    "stripe amount tok = Some ch"
    "orderItems_of userId (user_cart c userId) = Inr orderItems"
    "ord = \<lparr>order_id = new_id, order_total = charge_amount ch, order_charge = charge_id ch,
            order_items = orderItems, order_user = userId\<rparr>"
    "c' = mutation_deleteManyCartItems (map line_id (user_cart c userId))
            (c\<lparr>db_orders := db_orders c @ [ord]\<rparr>)"
  using assms
  by (auto simp: createOrder_def mutation_createOrder_def Let_def
           split: option.splits sum.splits)

text \<open>
  C5. When the charge of the computed amount is rejected by the gateway, \<^verbatim>\<open>createOrder\<close>
  raises the gateway's error and the whole context is as before the call: no order is
  created and no cart item is changed or deleted.
\<close>

theorem createOrder_gateway_failure_leaves_state:
  assumes "caller c = Some userId"
    and "query_user_by_id c userId = Some u"
    and "reduce_tally 0 (user_cart c userId) = Inr amount"
    and "stripe amount tok = None"
  shows "createOrder stripe new_id tok c = (Inl GatewayError, c)"
  using assms by (simp add: createOrder_def)

theorem createOrder_gateway_failure_leaves_state_witness:
  "ex_gateway 1300 ''tok_bad'' = None
   \<and> createOrder ex_gateway ''o1'' ''tok_bad'' (as_user alice ex_db)
       = (Inl GatewayError, as_user alice ex_db)"
proof -
  have h1: "caller (as_user alice ex_db) = Some ''u1''" by code_simp
  have h2: "query_user_by_id (as_user alice ex_db) ''u1'' = Some alice" by code_simp
  have h3: "reduce_tally 0 (user_cart (as_user alice ex_db) ''u1'') = Inr 1300" by code_simp
  have h4: "ex_gateway 1300 ''tok_bad'' = None" by code_simp
  from createOrder_gateway_failure_leaves_state
         [where stripe = ex_gateway and new_id = "''o1''", OF h1 h2 h3 h4] h4
  show ?thesis by simp
qed




lemma distinct_map_eq:
  "distinct (map f xs) \<Longrightarrow> x \<in> set xs \<Longrightarrow> y \<in> set xs \<Longrightarrow> f x = f y \<Longrightarrow> x = y"
  by (auto simp: distinct_map dest: inj_onD)

text \<open>
  C6. After a successful \<^verbatim>\<open>createOrder\<close> the caller's cart is empty; the cart items
  deleted are those whose id was read at checkout, which, the ids of the store being
  distinct, are exactly the caller's, every other row staying as it was; and the order,
  stored for the caller, has one order item per cart item read, in the same order, each
  the copy of the item's fields with that cart item's quantity.
\<close>

theorem createOrder_empties_cart:
  assumes ok: "createOrder stripe new_id tok c = (Inr ord, c')"
    and me: "caller c = Some userId"
  shows "cart_of c' userId = []
         \<and> db_cartItems c' =
             filter (\<lambda>ci. cart_id ci \<notin> set (map cart_id (cart_of c userId))) (db_cartItems c)
         \<and> (distinct (map cart_id (db_cartItems c)) \<longrightarrow>
              db_cartItems c' = filter (\<lambda>ci. cart_user ci \<noteq> userId) (db_cartItems c))
         \<and> db_orders c' = db_orders c @ [ord]
         \<and> order_user ord = userId
         \<and> list_all2 (snapshot_of c) (order_items ord) (cart_of c userId)
         \<and> map oi_quantity (order_items ord) = map cart_quantity (cart_of c userId)"
proof -
  from ok obtain userId' u amount ch orderItems where
    h0: "caller c = Some userId'"
       "query_user_by_id c userId' = Some u"
       "reduce_tally 0 (user_cart c userId') = Inr amount"
       "stripe amount tok = Some ch"
       "orderItems_of userId' (user_cart c userId') = Inr orderItems"
       "ord = \<lparr>order_id = new_id, order_total = charge_amount ch, order_charge = charge_id ch,
            order_items = orderItems, order_user = userId'\<rparr>"
       "c' = mutation_deleteManyCartItems (map line_id (user_cart c userId'))
            (c\<lparr>db_orders := db_orders c @ [ord]\<rparr>)"
    by (rule createOrder_success)
  note h = h0(1) h0(5) h0(6) h0(7)
  from h(1) me have [simp]: "userId' = userId" by simp
  have ids: "map line_id (user_cart c userId) = map cart_id (cart_of c userId)"
    by (simp add: user_cart_map comp_def)
  have carts: "db_cartItems c' =
      filter (\<lambda>ci. cart_id ci \<notin> set (map cart_id (cart_of c userId))) (db_cartItems c)"
    using h(4) ids by (simp add: mutation_deleteManyCartItems_def)
  have empty: "cart_of c' userId = []"
    unfolding cart_of_def carts by (auto simp: filter_empty_conv cart_of_def)
  have others: "db_cartItems c' = filter (\<lambda>ci. cart_user ci \<noteq> userId) (db_cartItems c)"
    if d: "distinct (map cart_id (db_cartItems c))"
    unfolding carts
  proof (rule filter_cong [OF refl])
    fix ci assume ci: "ci \<in> set (db_cartItems c)"
    show "(cart_id ci \<notin> set (map cart_id (cart_of c userId))) = (cart_user ci \<noteq> userId)"
    proof
      assume "cart_id ci \<notin> set (map cart_id (cart_of c userId))"
      with ci show "cart_user ci \<noteq> userId" by (auto simp: cart_of_def)
    next
      assume ne: "cart_user ci \<noteq> userId"
      show "cart_id ci \<notin> set (map cart_id (cart_of c userId))"
      proof
        assume "cart_id ci \<in> set (map cart_id (cart_of c userId))"
        then obtain ci' where ci': "ci' \<in> set (db_cartItems c)" "cart_user ci' = userId"
            "cart_id ci' = cart_id ci"
          by (auto simp: cart_of_def)
        from distinct_map_eq [OF d ci'(1) ci ci'(3)] ci'(2) ne show False by simp
      qed
    qed
  qed
  have snaps: "list_all2 (snapshot_of c) (order_items ord) (cart_of c userId)"
    using h(2) h(3) orderItems_of_snapshots [of userId c "cart_of c userId" orderItems]
    by (simp add: user_cart_map cart_of_users)
  have qs: "map oi_quantity (order_items ord) = map cart_quantity (cart_of c userId)"
    using snaps by (rule snapshot_quantities)
  from h(3) h(4) have "db_orders c' = db_orders c @ [ord]" "order_user ord = userId"
    by (simp_all add: mutation_deleteManyCartItems_def)
  with empty carts others snaps qs show ?thesis by blast
qed

theorem createOrder_empties_cart_witness:
  "fst (createOrder ex_gateway ''o2'' ''tok_visa'' (as_user bob ex_db)) = Inr ex_order2
   \<and> cart_of (as_user bob ex_db) ''u2''
       = [\<lparr>cart_id = ''c2'', cart_quantity = 1, cart_item = ''2'', cart_user = ''u2''\<rparr>]
   \<and> cart_of (snd (createOrder ex_gateway ''o2'' ''tok_visa'' (as_user bob ex_db))) ''u2'' = []
   \<and> db_cartItems (snd (createOrder ex_gateway ''o2'' ''tok_visa'' (as_user bob ex_db)))
       = [\<lparr>cart_id = ''c1'', cart_quantity = 2, cart_item = ''1'', cart_user = ''u1''\<rparr>,
          \<lparr>cart_id = ''c3'', cart_quantity = 1, cart_item = ''2'', cart_user = ''u1''\<rparr>]
   \<and> map oi_quantity (order_items ex_order2) = [1]"
proof -
  let ?c = "as_user bob ex_db"
  let ?r = "createOrder ex_gateway ''o2'' ''tok_visa'' ?c"
  have f: "fst ?r = Inr ex_order2" by code_simp
  then have ok: "?r = (Inr ex_order2, snd ?r)" by (metis prod.collapse)
  have me: "caller ?c = Some ''u2''" by code_simp
  have d: "distinct (map cart_id (db_cartItems ?c))" by code_simp
  have cart: "cart_of ?c ''u2''
       = [\<lparr>cart_id = ''c2'', cart_quantity = 1, cart_item = ''2'', cart_user = ''u2''\<rparr>]"
    by code_simp
  have rest: "filter (\<lambda>ci. cart_user ci \<noteq> ''u2'') (db_cartItems ?c)
       = [\<lparr>cart_id = ''c1'', cart_quantity = 2, cart_item = ''1'', cart_user = ''u1''\<rparr>,
          \<lparr>cart_id = ''c3'', cart_quantity = 1, cart_item = ''2'', cart_user = ''u1''\<rparr>]"
    by code_simp
  note facts = createOrder_empties_cart [OF ok me]
  from facts have e: "cart_of (snd ?r) ''u2'' = []" by blast
  from facts d have "db_cartItems (snd ?r) = filter (\<lambda>ci. cart_user ci \<noteq> ''u2'') (db_cartItems ?c)"
    by blast
  with rest have r': "db_cartItems (snd ?r)
       = [\<lparr>cart_id = ''c1'', cart_quantity = 2, cart_item = ''1'', cart_user = ''u1''\<rparr>,
          \<lparr>cart_id = ''c3'', cart_quantity = 1, cart_item = ''2'', cart_user = ''u1''\<rparr>]"
    by simp
  from facts have "map oi_quantity (order_items ex_order2) = map cart_quantity (cart_of ?c ''u2'')"
    by blast
  with cart have q: "map oi_quantity (order_items ex_order2) = [1]" by simp
  from f cart e r' q show ?thesis by blast
qed

section \<open>The cart\<close>

lemma find_append_last:
  "find P xs = None \<Longrightarrow> find P (xs @ [x]) = (if P x then Some x else None)"
  by (induction xs) (auto split: if_splits)



lemma caller_cartItems_update [simp]: "caller (c\<lparr>db_cartItems := xs\<rparr>) = caller c"
  by (simp add: caller_def)



section \<open>Single use of a reset token\<close>

lemma find_distinct_key:
  "distinct (map g xs) \<Longrightarrow> x \<in> set xs \<Longrightarrow> find (\<lambda>y. g y = g x) xs = Some x"
  by (induction xs) auto

lemma update_first_distinct_key:
  "distinct (map g xs) \<Longrightarrow> x \<in> set xs
   \<Longrightarrow> set (update_first (\<lambda>y. g y = g x) f xs) \<subseteq> insert (f x) (set xs - {x})"
  by (induction xs) auto

lemma update_first_member:
  "distinct (map g xs) \<Longrightarrow> x \<in> set xs
   \<Longrightarrow> f x \<in> set (update_first (\<lambda>y. g y = g x) f xs)"
  by (induction xs) auto

lemma filter_at_most_one:
  "length (filter P xs) \<le> 1 \<Longrightarrow> x \<in> set xs \<Longrightarrow> y \<in> set xs \<Longrightarrow> P x \<Longrightarrow> P y \<Longrightarrow> x = y"
proof -
  assume len: "length (filter P xs) \<le> 1" and "x \<in> set xs" "y \<in> set xs" "P x" "P y"
  then have in_f: "x \<in> set (filter P xs)" "y \<in> set (filter P xs)" by simp_all
  show "x = y"
  proof (cases "filter P xs")
    case Nil
    with in_f show ?thesis by simp
  next
    case (Cons a as)
    with len have "as = []" by simp
    with Cons in_f show ?thesis by simp
  qed
qed

text \<open>
  C8. In a store where emails are distinct and at most one user holds the token, a
  successful \<^verbatim>\<open>resetPassword\<close> returns and stores the user with token and expiry
  \<^verbatim>\<open>null\<close>; afterwards the token selects no user, whatever the time, and a second
  \<^verbatim>\<open>resetPassword\<close> with it fails with the invalid-or-expired error and changes nothing.
\<close>

theorem resetPassword_single_use:
  assumes ok: "resetPassword bcrypt_hash now tok pw cf c = (Inr u', c')"
    and one: "length (filter (\<lambda>u. user_resetToken u = Some tok) (db_users c)) \<le> 1"
    and emails: "distinct (map user_email (db_users c))"
  shows "user_resetToken u' = None \<and> user_resetTokenExpiry u' = None
         \<and> u' \<in> set (db_users c')
         \<and> query_users_where_resetToken c' tok bound = []
         \<and> resetPassword bcrypt_hash' now' tok pw' pw' c'
             = (Inl (Error ''This token is wither invalid or expired!''), c')"
proof -
  let ?f = "\<lambda>r. r\<lparr>user_password := bcrypt_hash pw, user_resetToken := None,
                   user_resetTokenExpiry := None\<rparr>"
  from ok obtain u us where
    sel: "query_users_where_resetToken c tok (now - 3600000) = u # us"
    by (cases "query_users_where_resetToken c tok (now - 3600000)")
       (auto simp: resetPassword_def split: if_splits)
  then have "u \<in> set (query_users_where_resetToken c tok (now - 3600000))" by simp
  then have u_in: "u \<in> set (db_users c)" and u_tok: "user_resetToken u = Some tok"
    by (simp_all add: query_users_where_resetToken_def)
  have found: "query_user_by_email c (user_email u) = Some u"
    unfolding query_user_by_email_def using emails u_in by (rule find_distinct_key)
  from ok sel found have u': "u' = ?f u"
    and c': "c' = c\<lparr>db_users := update_first (\<lambda>r. user_email r = user_email u) ?f (db_users c),
                     response_cookie := Some (user_id u')\<rparr>"
    by (auto simp: resetPassword_def mutation_updateUser_by_email_def Let_def
             split: if_splits)
  have sub: "set (db_users c') \<subseteq> insert (?f u) (set (db_users c) - {u})"
    unfolding c' using update_first_distinct_key [OF emails u_in, of ?f] by simp
  have no_tok: "user_resetToken v \<noteq> Some tok" if "v \<in> set (db_users c')" for v
  proof
    assume v_tok: "user_resetToken v = Some tok"
    from sub that have "v = ?f u \<or> (v \<in> set (db_users c) \<and> v \<noteq> u)" by auto
    then show False
    proof
      assume "v = ?f u"
      with v_tok show False by simp
    next
      assume "v \<in> set (db_users c) \<and> v \<noteq> u"
      with filter_at_most_one [OF one _ u_in, of v] v_tok u_tok show False by simp
    qed
  qed
  have empty: "query_users_where_resetToken c' tok b = []" for b
    using no_tok by (auto simp: query_users_where_resetToken_def filter_empty_conv)
  have in': "u' \<in> set (db_users c')"
  proof -
    have "?f u \<in> set (update_first (\<lambda>r. user_email r = user_email u) ?f (db_users c))"
      using emails u_in by (rule update_first_member)
    then show ?thesis by (simp add: c' u')
  qed
  have again: "resetPassword bcrypt_hash' now' tok pw' pw' c'
      = (Inl (Error ''This token is wither invalid or expired!''), c')"
    by (simp add: resetPassword_def empty)
  from u' in' empty again show ?thesis by simp
qed

theorem resetPassword_single_use_witness:
  "fst (resetPassword ex_hash 500 ''abc'' ''new'' ''new'' ex_db)
       = Inr (alice\<lparr>user_password := ''hash:new'', user_resetToken := None,
                    user_resetTokenExpiry := None\<rparr>)
   \<and> resetPassword ex_hash 600 ''abc'' ''newer'' ''newer''
        (snd (resetPassword ex_hash 500 ''abc'' ''new'' ''new'' ex_db))
       = (Inl (Error ''This token is wither invalid or expired!''),
          snd (resetPassword ex_hash 500 ''abc'' ''new'' ''new'' ex_db))"
proof -
  let ?r = "resetPassword ex_hash 500 ''abc'' ''new'' ''new'' ex_db"
  let ?a = "alice\<lparr>user_password := ''hash:new'', user_resetToken := None,
                    user_resetTokenExpiry := None\<rparr>"
  have f: "fst ?r = Inr ?a" by code_simp
  then have ok: "?r = (Inr ?a, snd ?r)" by (metis prod.collapse)
  have one: "length (filter (\<lambda>u. user_resetToken u = Some ''abc'') (db_users ex_db)) \<le> 1"
    by code_simp
  have emails: "distinct (map user_email (db_users ex_db))" by code_simp
  from resetPassword_single_use
         [where bcrypt_hash' = ex_hash and now' = 600 and pw' = "''newer''", OF ok one emails] f
  show ?thesis by simp
qed

section \<open>Signup and signin\<close>

lemma toLowerCase_example: "toLowerCase ''Email@Test.com'' = ''email@test.com''"
  by code_simp

text \<open>
  C9. When \<^verbatim>\<open>email@test.com\<close> is not registered and the hash comparison accepts the
  password against its own hash, \<^verbatim>\<open>signup\<close> with \<^verbatim>\<open>Email@Test.com\<close> stores a user
  with the email \<^verbatim>\<open>email@test.com\<close> and the hash of the password, and \<^verbatim>\<open>signin\<close> with
  \<^verbatim>\<open>email@test.com\<close> and the same password then returns that user.
\<close>

theorem signup_then_signin:
  assumes free: "query_user_by_email c ''email@test.com'' = None"
    and bcrypt: "bcrypt_compare pw (bcrypt_hash pw)"
  shows "\<exists>u c' c''.
           signup bcrypt_hash new_id ''Email@Test.com'' pw name c = (Inr u, c')
           \<and> user_email u = ''email@test.com''
           \<and> user_password u = bcrypt_hash pw
           \<and> db_users c' = db_users c @ [u]
           \<and> signin bcrypt_compare ''email@test.com'' pw c' = (Inr u, c'')"
proof -
  note lower = toLowerCase_example
  let ?u = "\<lparr>user_id = new_id, user_name = name, user_email = ''email@test.com'',
             user_password = bcrypt_hash pw, user_resetToken = None,
             user_resetTokenExpiry = None, user_permissions = [''USER'']\<rparr>"
  let ?c' = "c\<lparr>db_users := db_users c @ [?u], response_cookie := Some new_id\<rparr>"
  have up: "signup bcrypt_hash new_id ''Email@Test.com'' pw name c = (Inr ?u, ?c')"
    using free by (simp add: signup_def lower mutation_createUser_def Let_def)
  from free have "find (\<lambda>u. user_email u = ''email@test.com'') (db_users c) = None"
    by (simp add: query_user_by_email_def)
  then have found: "query_user_by_email ?c' ''email@test.com'' = Some ?u"
    by (simp add: query_user_by_email_def find_append_last)
  have "signin bcrypt_compare ''email@test.com'' pw ?c'
          = (Inr ?u, ?c'\<lparr>response_cookie := Some new_id\<rparr>)"
    using bcrypt by (simp add: signin_def found del: find.simps)
  with up show ?thesis by simp
qed

theorem signup_then_signin_witness:
  "fst (signup ex_hash ''u4'' ''Email@Test.com'' ''secret'' ''Dave'' ex_db)
       = Inr \<lparr>user_id = ''u4'', user_name = ''Dave'', user_email = ''email@test.com'',
              user_password = ''hash:secret'', user_resetToken = None,
              user_resetTokenExpiry = None, user_permissions = [''USER'']\<rparr>
   \<and> fst (signin ex_compare ''email@test.com'' ''secret''
            (snd (signup ex_hash ''u4'' ''Email@Test.com'' ''secret'' ''Dave'' ex_db)))
       = fst (signup ex_hash ''u4'' ''Email@Test.com'' ''secret'' ''Dave'' ex_db)"
proof -
  have free: "query_user_by_email ex_db ''email@test.com'' = None" by code_simp
  have bcrypt: "ex_compare ''secret'' (ex_hash ''secret'')" by code_simp
  have f: "fst (signup ex_hash ''u4'' ''Email@Test.com'' ''secret'' ''Dave'' ex_db)
       = Inr \<lparr>user_id = ''u4'', user_name = ''Dave'', user_email = ''email@test.com'',
              user_password = ''hash:secret'', user_resetToken = None,
              user_resetTokenExpiry = None, user_permissions = [''USER'']\<rparr>"
    by code_simp
  from signup_then_signin
         [where bcrypt_compare = ex_compare and bcrypt_hash = ex_hash
            and new_id = "''u4''" and name = "''Dave''", OF free bcrypt] f
  show ?thesis by auto
qed

end
